theory Spec2Isabelle
  imports Main "HOL-Library.Word"
begin

section \<open>JavaScript values used by all three modules\<close>

text \<open>
  Strings are \<open>string\<close>; raw response bodies are lists of bytes. A value that may be
  \<open>undefined\<close> or \<open>null\<close> is an \<open>option\<close> (\<open>None\<close> stands for either; no code path
  below tells the two apart). A thrown value is an instance of \<open>Error\<close> with its message
  (\<open>JsError\<close>, \<open>TypeError\<close> included), \<open>null\<close> or \<open>undefined\<close> (\<open>ThrownNullish\<close>), or
  another value, one without a \<open>message\<close> property (\<open>Thrown\<close>).
\<close>

type_synonym byte = "8 word"

datatype js_error = JsError string | Thrown | ThrownNullish

text \<open>JavaScript's \<open>!v\<close> on a value that is a string or absent.\<close>

definition falsy :: "string option \<Rightarrow> bool" where
  "falsy v = (case v of None \<Rightarrow> True | Some s \<Rightarrow> s = [])"

text \<open>\<open>v || d\<close> on a value that is a string or absent.\<close>

definition or_default :: "string option \<Rightarrow> string \<Rightarrow> string" where
  "or_default v d = (case v of None \<Rightarrow> d | Some s \<Rightarrow> if s = [] then d else s)"

text \<open>\<open>s.split(c)\<close>: the pieces of \<open>s\<close> between occurrences of \<open>c\<close>, never an empty list.\<close>

fun split_on :: "char \<Rightarrow> string \<Rightarrow> string list" where
  "split_on c [] = [[]]"
| "split_on c (x # xs) =
     (if x = c then [] # split_on c xs
      else (case split_on c xs of
              [] \<Rightarrow> [[x]]
            | p # ps \<Rightarrow> (x # p) # ps))"

text \<open>\<open>xs[i]\<close>: \<open>undefined\<close> out of range.\<close>

definition index_opt :: "'a list \<Rightarrow> nat \<Rightarrow> 'a option" where
  "index_opt xs i = (if i < length xs then Some (xs ! i) else None)"

text \<open>
  \<open>s.trim()\<close>: the white space of JavaScript among the code points a \<open>char\<close> holds
  (tab, line feed, vertical tab, form feed, carriage return, space, no-break space).
\<close>

definition js_space :: "char \<Rightarrow> bool" where
  "js_space c = (of_char c \<in> {9, 10, 11, 12, 13, 32, 160 :: nat})"

definition trim :: "string \<Rightarrow> string" where
  "trim s = rev (dropWhile js_space (rev (dropWhile js_space s)))"

section \<open>The proxy handler\<close>

text \<open>
  The source holds two variants of the handler. The second one, with the rate limiter
  and the branches for upstream errors, is the one modelled here.
\<close>

subsection \<open>The upstream response and its body\<close>

text \<open>
  What \<open>fetch\<close> resolves with: the status, the value of \<open>headers.get('content-type')\<close>,
  and the body. A body is absent (\<open>NullBody\<close>), a stream that delivers its bytes, or a
  stream that fails while it is read, with the message of the error it raises.
\<close>

datatype body_stream = NullBody | Stream "byte list" | Broken string

record response =
  status :: nat
  content_type :: "string option"
  body :: body_stream

text \<open>\<open>response.ok\<close>.\<close>

definition ok :: "response \<Rightarrow> bool" where
  "ok r = (200 \<le> status r \<and> status r \<le> 299)"

text \<open>
  The body of a response is read at most once. \<open>arrayBuffer()\<close> and \<open>text()\<close> both run
  the Fetch standard's "consume body": a body that is not null and has been read already
  makes the promise reject with a \<open>TypeError\<close>; otherwise the stream is read to its end
  and is marked as read. The flag \<open>used\<close> is the state of the response object; it is
  \<open>False\<close> on the object \<open>fetch\<close> has just resolved with. The text of the message depends
  on the runtime; the one of Node's \<open>fetch\<close> is taken.
\<close>

definition body_unusable_message :: string where
  "body_unusable_message = ''Body is unusable: Body has already been read''"

definition consume :: "response \<Rightarrow> bool \<Rightarrow> (js_error + byte list) \<times> bool" where
  "consume r used =
     (case body r of
        NullBody \<Rightarrow> (Inr [], used)
      | Stream bs \<Rightarrow>
          if used then (Inl (JsError body_unusable_message), used) else (Inr bs, True)
      | Broken m \<Rightarrow>
          if used then (Inl (JsError body_unusable_message), used) else (Inl (JsError m), True))"

definition arrayBuffer :: "response \<Rightarrow> bool \<Rightarrow> (js_error + byte list) \<times> bool" where
  "arrayBuffer r used = consume r used"

text \<open>
  The parts of the runtime the handler calls and the repository does not define:
  \<open>JSON.stringify\<close> on the request body (\<open>None\<close> when it gives \<open>undefined\<close>) and the UTF-8
  decoding \<open>text()\<close> applies to the bytes it has read.
\<close>

record 'b runtime =
  stringify :: "'b \<Rightarrow> string option"
  utf8_decode :: "byte list \<Rightarrow> string"

definition text_of_body :: "'b runtime \<Rightarrow> response \<Rightarrow> bool \<Rightarrow> (js_error + string) \<times> bool" where
  "text_of_body rt r used =
     (case consume r used of
        (Inl err, used') \<Rightarrow> (Inl err, used')
      | (Inr bs, used') \<Rightarrow> (Inr (utf8_decode rt bs), used'))"

subsection \<open>Request, outgoing call and the response being built\<close>

record 'b request =
  req_method :: string
  req_body :: 'b

record fetch_call =
  url :: string
  fmethod :: string
  fheaders :: "(string \<times> string) list"
  fbody :: "string option"

text \<open>
  What the handler has sent: \<open>res.end(s)\<close>, \<open>res.json(obj)\<close> with the fields of the
  object in order, or \<open>res.send(Buffer)\<close>. Only headers set by \<open>res.setHeader\<close> are
  recorded.
\<close>

datatype payload = Ended string | Json "(string \<times> string) list" | Buffer "byte list"

record res =
  res_status :: nat
  res_headers :: "string \<rightharpoonup> string"
  sent :: "payload option"

definition res0 :: res where
  "res0 = \<lparr>res_status = 200, res_headers = Map.empty, sent = None\<rparr>"

definition setHeader :: "res \<Rightarrow> string \<Rightarrow> string \<Rightarrow> res" where
  "setHeader r k v = r\<lparr>res_headers := (res_headers r)(k \<mapsto> v)\<rparr>"

definition set_status :: "res \<Rightarrow> nat \<Rightarrow> res" where
  "set_status r n = r\<lparr>res_status := n\<rparr>"

definition end_with :: "res \<Rightarrow> string \<Rightarrow> res" where
  "end_with r s = r\<lparr>sent := Some (Ended s)\<rparr>"

definition json :: "res \<Rightarrow> (string \<times> string) list \<Rightarrow> res" where
  "json r obj = r\<lparr>sent := Some (Json obj)\<rparr>"

definition send :: "res \<Rightarrow> byte list \<Rightarrow> res" where
  "send r bs = r\<lparr>sent := Some (Buffer bs)\<rparr>"

subsection \<open>The handler\<close>

definition quota_message :: string where
  "quota_message =
     ''Quota exceeded. Please wait and try again later, or upgrade your Google Cloud billing plan.''"

text \<open>
  The \<open>catch\<close> block. \<open>err.message\<close> is \<open>undefined\<close> on a thrown value that is not an
  \<open>Error\<close>, and \<open>res.json\<close> leaves an \<open>undefined\<close> field out. On a thrown \<open>null\<close> or
  \<open>undefined\<close>, reading \<open>err.message\<close> throws in its turn: \<open>res.status(500)\<close> has run,
  the argument of \<open>json\<close> is never built, nothing is sent and the handler's promise
  rejects.
\<close>

definition server_error :: "js_error \<Rightarrow> res" where
  "server_error err =
     (case err of
        JsError m \<Rightarrow>
          json (set_status res0 500) [(''error'', ''Server error''), (''details'', m)]
      | Thrown \<Rightarrow> json (set_status res0 500) [(''error'', ''Server error'')]
      | ThrownNullish \<Rightarrow> set_status res0 500)"

text \<open>
  The statements after \<open>fetch\<close> has resolved, up to the \<open>return\<close> of the \<open>try\<close> block.
  \<open>Inl\<close> is a rejected \<open>await\<close>; every one of them comes before the first write to
  \<open>res\<close>, so the \<open>catch\<close> block starts from the untouched response.
\<close>

definition relay :: "'b runtime \<Rightarrow> response \<Rightarrow> js_error + res" where
  "relay rt externalResp =
     (let contentType = or_default (content_type externalResp) ''application/json'' in
      case arrayBuffer externalResp False of
        (Inl err, _) \<Rightarrow> Inl err
      | (Inr buffer, used) \<Rightarrow>
          if status externalResp = 429 then
            (case text_of_body rt externalResp used of
               (Inl err, _) \<Rightarrow> Inl err
             | (Inr errorText, _) \<Rightarrow>
                 Inr (json (set_status res0 429)
                        [(''error'', quota_message), (''details'', errorText)]))
          else if \<not> ok externalResp then
            (case text_of_body rt externalResp used of
               (Inl err, _) \<Rightarrow> Inl err
             | (Inr errorText, _) \<Rightarrow>
                 Inr (json (set_status res0 (status externalResp))
                        [(''error'', ''API error occurred''), (''details'', errorText)]))
          else
            Inr (send (setHeader (set_status res0 (status externalResp))
                         ''Content-Type'' contentType) buffer))"

text \<open>The argument of \<open>fetch\<close>: the URL and the options object.\<close>

definition proxy_call :: "'b runtime \<Rightarrow> string \<Rightarrow> string \<Rightarrow> 'b request \<Rightarrow> fetch_call" where
  "proxy_call rt GEMINI_URL GEMINI_KEY req =
     \<lparr>url = GEMINI_URL,
      fmethod = ''POST'',
      fheaders = [(''Content-Type'', ''application/json''),
                  (''Authorization'', ''Bearer '' @ GEMINI_KEY)],
      fbody = stringify rt (req_body req)\<rparr>"

text \<open>
  The handler, given the environment variables and the upstream as a function from the
  call to what \<open>fetch\<close> does with it (\<open>Inl\<close>: the promise rejects). It returns the response
  and the upstream calls it has made, in order; a response whose \<open>sent\<close> is \<open>None\<close> is
  one the handler never sends. \<open>limiter.schedule\<close> delays the call and
  then yields what the call yields; the delay is not part of this model, nor is the
  console output.
\<close>

definition handler ::
  "'b runtime \<Rightarrow> (string \<rightharpoonup> string) \<Rightarrow> (fetch_call \<Rightarrow> js_error + response) \<Rightarrow>
   'b request \<Rightarrow> res \<times> fetch_call list" where
  "handler rt env upstream req =
     (if req_method req \<noteq> ''POST'' then
        (end_with (set_status (setHeader res0 ''Allow'' ''POST'') 405) ''Method Not Allowed'', [])
      else
        let GEMINI_URL = env ''GEMINI_API_URL'';
            GEMINI_KEY = env ''GEMINI_API_KEY''
        in
        if falsy GEMINI_URL \<or> falsy GEMINI_KEY then
          (json (set_status res0 500)
             [(''error'', ''Missing GEMINI_API_URL or GEMINI_API_KEY'')], [])
        else
          let call = proxy_call rt (the GEMINI_URL) (the GEMINI_KEY) req in
          (case upstream call of
             Inl err \<Rightarrow> (server_error err, [call])
           | Inr externalResp \<Rightarrow>
               (case relay rt externalResp of
                  Inl err \<Rightarrow> (server_error err, [call])
                | Inr r \<Rightarrow> (r, [call]))))"

section \<open>The generation client\<close>

subsection \<open>The provider's request and response\<close>

text \<open>
  The shapes are those of the provider's library: every field of a response is optional.
  The two fixed instruction texts are kept as names: \<open>TryOnPrompt\<close> is the template of
  \<open>performVirtualTryOn\<close>, \<open>RefinePrompt u\<close> the template of \<open>refineImage\<close> with the user's
  instruction \<open>u\<close> inserted.
\<close>

record blob =
  data :: "string option"
  mimeType :: "string option"

record part =
  inlineData :: "blob option"
  part_text :: "string option"

record content =
  parts :: "part list option"

record candidate =
  cand_content :: "content option"

record gen_response =
  candidates :: "candidate list option"

datatype prompt = TryOnPrompt | RefinePrompt string

datatype req_part = InlinePart blob | TextPart prompt

datatype modality = IMAGE | TEXT

record gen_request =
  apiKey :: string
  model :: string
  contents :: "req_part list"
  responseModalities :: "modality list"

record gen_result =
  imageBase64 :: "string option"
  result_text :: "string option"

subsection \<open>Reading the response\<close>

text \<open>
  The \<open>for\<close> loop over the parts, with the two variables \<open>imageBase64\<close> and \<open>text\<close> as the
  accumulator. A part with \<open>inlineData\<close> assigns the image (to \<open>undefined\<close> when the blob
  has no \<open>data\<close>); otherwise a part with a non-empty \<open>text\<close> assigns the text. Each
  assignment overwrites the one before.
\<close>

fun scan_parts :: "part list \<Rightarrow> gen_result \<Rightarrow> gen_result" where
  "scan_parts [] acc = acc"
| "scan_parts (p # ps) acc =
     (case inlineData p of
        Some b \<Rightarrow> scan_parts ps (acc\<lparr>imageBase64 := data b\<rparr>)
      | None \<Rightarrow>
          if \<not> falsy (part_text p) then scan_parts ps (acc\<lparr>result_text := part_text p\<rparr>)
          else scan_parts ps acc)"

text \<open>
  \<open>response.candidates[0].content.parts\<close> throws a \<open>TypeError\<close> when the first candidate
  has no \<open>content\<close>, and \<open>for ... of\<close> throws one when the content has no \<open>parts\<close>. The
  messages are those of V8.
\<close>

definition no_content_message :: string where
  "no_content_message = ''Cannot read properties of undefined (reading 'parts')''"

definition not_iterable_message :: string where
  "not_iterable_message = ''response.candidates[0].content.parts is not iterable''"

text \<open>
  The statements after \<open>generateContent\<close> has resolved. They are the same, word for word,
  in \<open>performVirtualTryOn\<close> and in \<open>refineImage\<close> (where the first variable is called
  \<open>newImageBase64\<close>).
\<close>

definition extract_result :: "gen_response \<Rightarrow> js_error + gen_result" where
  "extract_result response =
     (let init = \<lparr>imageBase64 = None, result_text = None\<rparr> in
      case candidates response of
        None \<Rightarrow> Inr init
      | Some [] \<Rightarrow> Inr init
      | Some (c # _) \<Rightarrow>
          (case cand_content c of
             None \<Rightarrow> Inl (JsError no_content_message)
           | Some ct \<Rightarrow>
               (case parts ct of
                  None \<Rightarrow> Inl (JsError not_iterable_message)
                | Some ps \<Rightarrow> Inr (scan_parts ps init))))"

subsection \<open>The two operations\<close>

text \<open>
  Each takes the environment variables and the provider as a function from the request
  to what \<open>generateContent\<close> does with it (\<open>Inl\<close>: the promise rejects), and returns what
  the operation resolves or rejects with, together with the network calls it has made.
  The image data are \<open>string option\<close>: the callers obtain them with \<open>split(',')[1]\<close>, which
  is \<open>undefined\<close> on a string without a comma.
\<close>

definition api_key_message :: string where
  "api_key_message = ''API_KEY environment variable is not set.''"

definition image_model :: string where
  "image_model = ''gemini-2.5-flash-image-preview''"

text \<open>The arguments of the two \<open>generateContent\<close> calls.\<close>

definition tryon_request ::
  "string \<Rightarrow> string option \<Rightarrow> string option \<Rightarrow> string \<Rightarrow> string \<Rightarrow> gen_request" where
  "tryon_request key personImageBase64 clothingImageBase64 personMimeType clothingMimeType =
     \<lparr>apiKey = key,
      model = image_model,
      contents =
        [InlinePart \<lparr>data = personImageBase64, mimeType = Some personMimeType\<rparr>,
         InlinePart \<lparr>data = clothingImageBase64, mimeType = Some clothingMimeType\<rparr>,
         TextPart TryOnPrompt],
      responseModalities = [IMAGE, TEXT]\<rparr>"

definition refine_request :: "string \<Rightarrow> string option \<Rightarrow> string \<Rightarrow> string \<Rightarrow> gen_request" where
  "refine_request key imageBase64_in mimeType_in userPrompt =
     \<lparr>apiKey = key,
      model = image_model,
      contents =
        [InlinePart \<lparr>data = imageBase64_in, mimeType = Some mimeType_in\<rparr>,
         TextPart (RefinePrompt userPrompt)],
      responseModalities = [IMAGE, TEXT]\<rparr>"

definition performVirtualTryOn ::
  "(string \<rightharpoonup> string) \<Rightarrow> (gen_request \<Rightarrow> js_error + gen_response) \<Rightarrow>
   string option \<Rightarrow> string option \<Rightarrow> string \<Rightarrow> string \<Rightarrow>
   (js_error + gen_result) \<times> gen_request list" where
  "performVirtualTryOn env provider personImageBase64 clothingImageBase64
       personMimeType clothingMimeType =
     (if falsy (env ''API_KEY'') then (Inl (JsError api_key_message), [])
      else
        let request = tryon_request (the (env ''API_KEY'')) personImageBase64
                        clothingImageBase64 personMimeType clothingMimeType
        in
        (case provider request of
           Inl err \<Rightarrow> (Inl err, [request])
         | Inr response \<Rightarrow> (extract_result response, [request])))"

definition refineImage ::
  "(string \<rightharpoonup> string) \<Rightarrow> (gen_request \<Rightarrow> js_error + gen_response) \<Rightarrow>
   string option \<Rightarrow> string \<Rightarrow> string \<Rightarrow>
   (js_error + gen_result) \<times> gen_request list" where
  "refineImage env provider imageBase64_in mimeType_in userPrompt =
     (if falsy (env ''API_KEY'') then (Inl (JsError api_key_message), [])
      else
        let request = refine_request (the (env ''API_KEY'')) imageBase64_in mimeType_in
                        userPrompt
        in
        (case provider request of
           Inl err \<Rightarrow> (Inl err, [request])
         | Inr response \<Rightarrow> (extract_result response, [request])))"

section \<open>The UI controller\<close>

text \<open>
  A file is what the controller can observe of it: its MIME type and what
  \<open>FileReader.readAsDataURL\<close> yields (\<open>None\<close>: the reader fires \<open>onerror\<close>).
\<close>

record file_handle =
  ftype :: string
  dataURL :: "string option"

record image_state =
  preview :: string
  img_file :: file_handle

record ui_state =
  personImage :: "image_state option"
  clothingImage :: "image_state option"
  resultImage :: "string option"
  isLoading :: bool
  isRefining :: bool
  error :: "string option"
  refinePrompt :: string

text \<open>
  A run of an action handler gives the state after all its \<open>set...\<close> calls, the calls it
  has made to the generation client, and the network calls those have made.
\<close>

datatype client_call =
  TryOn "string option" "string option" string string
| Refine "string option" string string

record ui_outcome =
  final :: ui_state
  invoked :: "client_call list"
  network :: "gen_request list"

text \<open>
  \<open>toBase64\<close>: the reader's error event is not an \<open>Error\<close>; on success the promise
  resolves with the second piece of the data URL.
\<close>

definition toBase64 :: "file_handle \<Rightarrow> js_error + string option" where
  "toBase64 f =
     (case dataURL f of
        None \<Rightarrow> Inl Thrown
      | Some u \<Rightarrow> Inr (index_opt (split_on CHR '','' u) 1))"

text \<open>\<open>err instanceof Error ? err.message : "An unknown error occurred."\<close>\<close>

definition error_message :: "js_error \<Rightarrow> string" where
  "error_message err =
     (case err of
        JsError m \<Rightarrow> m
      | Thrown \<Rightarrow> ''An unknown error occurred.''
      | ThrownNullish \<Rightarrow> ''An unknown error occurred.'')"

definition data_url :: "string \<Rightarrow> string" where
  "data_url b64 = ''data:image/png;base64,'' @ b64"

definition generate_failed :: "js_error \<Rightarrow> ui_state \<Rightarrow> ui_state" where
  "generate_failed err s = s\<lparr>error := Some (''Failed to generate image: '' @ error_message err)\<rparr>"

definition no_image_message :: string where
  "no_image_message =
     ''The AI model did not return an image. Please try again with different images.''"

definition handleVirtualTryOn ::
  "(string \<rightharpoonup> string) \<Rightarrow> (gen_request \<Rightarrow> js_error + gen_response) \<Rightarrow>
   ui_state \<Rightarrow> ui_outcome" where
  "handleVirtualTryOn env provider s =
     (if personImage s = None \<or> clothingImage s = None then
        \<lparr>final = s\<lparr>error := Some ''Please upload both a person and a clothing image.''\<rparr>,
         invoked = [], network = []\<rparr>
      else
        let person = img_file (the (personImage s));
            clothing = img_file (the (clothingImage s));
            s1 = s\<lparr>isLoading := True, error := None, resultImage := None\<rparr>
        in
        (case toBase64 person of
           Inl err \<Rightarrow>
             \<lparr>final = (generate_failed err s1)\<lparr>isLoading := False\<rparr>,
              invoked = [], network = []\<rparr>
         | Inr personBase64 \<Rightarrow>
             (case toBase64 clothing of
                Inl err \<Rightarrow>
                  \<lparr>final = (generate_failed err s1)\<lparr>isLoading := False\<rparr>,
                   invoked = [], network = []\<rparr>
              | Inr clothingBase64 \<Rightarrow>
                  (case performVirtualTryOn env provider personBase64 clothingBase64
                          (ftype person) (ftype clothing) of
                     (outcome, net) \<Rightarrow>
                       let s2 =
                             (case outcome of
                                Inl err \<Rightarrow> generate_failed err s1
                              | Inr result \<Rightarrow>
                                  if \<not> falsy (imageBase64 result) then
                                    s1\<lparr>resultImage :=
                                          Some (data_url (the (imageBase64 result)))\<rparr>
                                  else generate_failed (JsError no_image_message) s1)
                       in
                       \<lparr>final = s2\<lparr>isLoading := False\<rparr>,
                        invoked = [TryOn personBase64 clothingBase64
                                     (ftype person) (ftype clothing)],
                        network = net\<rparr>))))"

definition refine_failed :: "js_error \<Rightarrow> ui_state \<Rightarrow> ui_state" where
  "refine_failed err s = s\<lparr>error := Some (''Failed to refine image: '' @ error_message err)\<rparr>"

definition no_refined_message :: string where
  "no_refined_message = ''The AI model did not return a refined image.''"

definition handleRefine ::
  "(string \<rightharpoonup> string) \<Rightarrow> (gen_request \<Rightarrow> js_error + gen_response) \<Rightarrow>
   ui_state \<Rightarrow> ui_outcome" where
  "handleRefine env provider s =
     (if falsy (resultImage s) \<or> trim (refinePrompt s) = [] then
        \<lparr>final = s\<lparr>error := Some ''Cannot refine without a result image and a prompt.''\<rparr>,
         invoked = [], network = []\<rparr>
      else
        let s1 = s\<lparr>isRefining := True, error := None\<rparr>;
            currentImageBase64 = index_opt (split_on CHR '','' (the (resultImage s))) 1
        in
        (case refineImage env provider currentImageBase64 ''image/png'' (refinePrompt s) of
           (outcome, net) \<Rightarrow>
             let s2 =
                   (case outcome of
                      Inl err \<Rightarrow> refine_failed err s1
                    | Inr result \<Rightarrow>
                        if \<not> falsy (imageBase64 result) then
                          s1\<lparr>resultImage := Some (data_url (the (imageBase64 result))),
                             refinePrompt := []\<rparr>
                        else refine_failed (JsError no_refined_message) s1)
             in
             \<lparr>final = s2\<lparr>isRefining := False\<rparr>,
              invoked = [Refine currentImageBase64 ''image/png'' (refinePrompt s)],
              network = net\<rparr>))"

section \<open>Vocabulary of the properties\<close>

subsection \<open>What a list of parts holds\<close>

text \<open>
  The specification's wording: the first inline payload and the first text fragment
  found among the parts.
\<close>

fun first_inline_payload :: "part list \<Rightarrow> string option" where
  "first_inline_payload [] = None"
| "first_inline_payload (p # ps) =
     (case inlineData p of Some b \<Rightarrow> data b | None \<Rightarrow> first_inline_payload ps)"

fun first_text_fragment :: "part list \<Rightarrow> string option" where
  "first_text_fragment [] = None"
| "first_text_fragment (p # ps) =
     (case part_text p of Some t \<Rightarrow> Some t | None \<Rightarrow> first_text_fragment ps)"

text \<open>
  What the loop keeps: the parts with \<open>inlineData\<close>, and the parts without it whose text
  is not empty; of each kind, the last one.
\<close>

definition inline_parts :: "part list \<Rightarrow> part list" where
  "inline_parts ps = filter (\<lambda>p. inlineData p \<noteq> None) ps"

definition text_parts :: "part list \<Rightarrow> part list" where
  "text_parts ps = filter (\<lambda>p. inlineData p = None \<and> \<not> falsy (part_text p)) ps"

definition payload_of :: "part \<Rightarrow> string option" where
  "payload_of p = (case inlineData p of None \<Rightarrow> None | Some b \<Rightarrow> data b)"

fun last_opt :: "'a list \<Rightarrow> 'a option" where
  "last_opt [] = None"
| "last_opt (x # xs) = (case last_opt xs of None \<Rightarrow> Some x | Some y \<Rightarrow> Some y)"

definition last_inline_payload :: "part list \<Rightarrow> string option" where
  "last_inline_payload ps =
     (case last_opt (inline_parts ps) of None \<Rightarrow> None | Some p \<Rightarrow> payload_of p)"

definition last_text_fragment :: "part list \<Rightarrow> string option" where
  "last_text_fragment ps =
     (case last_opt (text_parts ps) of None \<Rightarrow> None | Some p \<Rightarrow> part_text p)"

subsection \<open>Concrete inputs\<close>

text \<open>
  A runtime for requests whose body is a JSON boolean; the decoding is exact on ASCII
  bytes, the only ones the examples use.
\<close>

definition ex_runtime :: "bool runtime" where
  "ex_runtime =
     \<lparr>stringify = (\<lambda>b. Some (if b then ''true'' else ''false'')),
      utf8_decode = map (\<lambda>b. char_of (unat b))\<rparr>"

definition ex_env :: "string \<rightharpoonup> string" where
  "ex_env = [''GEMINI_API_URL'' \<mapsto> ''https://upstream.example/v1'',
             ''GEMINI_API_KEY'' \<mapsto> ''secret'']"

definition ex_env_no_key :: "string \<rightharpoonup> string" where
  "ex_env_no_key = [''GEMINI_API_URL'' \<mapsto> ''https://upstream.example/v1'']"

definition ex_post :: "bool request" where
  "ex_post = \<lparr>req_method = ''POST'', req_body = True\<rparr>"

definition ex_get :: "bool request" where
  "ex_get = \<lparr>req_method = ''GET'', req_body = True\<rparr>"

definition ex_call :: fetch_call where
  "ex_call =
     \<lparr>url = ''https://upstream.example/v1'',
      fmethod = ''POST'',
      fheaders = [(''Content-Type'', ''application/json''),
                  (''Authorization'', ''Bearer secret'')],
      fbody = Some ''true''\<rparr>"

text \<open>An upstream whose \<open>fetch\<close> resolves with the given response, whatever the call.\<close>

definition resolves :: "response \<Rightarrow> fetch_call \<Rightarrow> js_error + response" where
  "resolves r call = Inr r"

text \<open>Status 429 with the two bytes \<open>{}\<close> as body.\<close>

definition ex_quota_response :: response where
  "ex_quota_response =
     \<lparr>status = 429, content_type = Some ''application/json'', body = Stream [123, 125]\<rparr>"

definition ex_png_response :: response where
  "ex_png_response = \<lparr>status = 200, content_type = Some ''image/png'', body = Stream [1, 2, 3]\<rparr>"

definition ex_empty_type_response :: response where
  "ex_empty_type_response = \<lparr>status = 200, content_type = Some [], body = Stream [1, 2, 3]\<rparr>"

definition ex_untyped_response :: response where
  "ex_untyped_response = \<lparr>status = 200, content_type = None, body = Stream [1, 2, 3]\<rparr>"

text \<open>The client's environment and a provider that resolves with the given response.\<close>

definition ex_client_env :: "string \<rightharpoonup> string" where
  "ex_client_env = [''API_KEY'' \<mapsto> ''k'']"

definition answers :: "gen_response \<Rightarrow> gen_request \<Rightarrow> js_error + gen_response" where
  "answers r req = Inr r"

definition image_part :: "string \<Rightarrow> part" where
  "image_part d =
     \<lparr>inlineData = Some \<lparr>data = Some d, mimeType = Some ''image/png''\<rparr>, part_text = None\<rparr>"

definition text_part :: "string \<Rightarrow> part" where
  "text_part t = \<lparr>inlineData = None, part_text = Some t\<rparr>"

definition response_of :: "part list \<Rightarrow> gen_response" where
  "response_of ps = \<lparr>candidates = Some [\<lparr>cand_content = Some \<lparr>parts = Some ps\<rparr>\<rparr>]\<rparr>"

definition ex_no_candidates :: gen_response where
  "ex_no_candidates = \<lparr>candidates = Some []\<rparr>"

definition ex_two_each :: "part list" where
  "ex_two_each = [image_part ''A'', image_part ''B'', text_part ''x'', text_part ''y'']"

text \<open>
  Several parts of each kind, an empty text, and a last part that has both \<open>inlineData\<close>
  and a text.
\<close>

definition ex_mixed :: "part list" where
  "ex_mixed =
     [image_part ''A'', text_part ''x'', image_part ''B'', text_part ''y'', text_part [],
      \<lparr>inlineData = Some \<lparr>data = Some ''C'', mimeType = Some ''image/png''\<rparr>,
       part_text = Some ''z''\<rparr>]"

definition ex_one_each :: "part list" where
  "ex_one_each = [image_part ''A'', text_part ''x'']"

definition ex_empty_image :: "part list" where
  "ex_empty_image = [image_part []]"

text \<open>States of the controller.\<close>

definition ex_file :: file_handle where
  "ex_file = \<lparr>ftype = ''image/png'', dataURL = Some ''data:image/png;base64,AAAA''\<rparr>"

definition ex_person_only :: ui_state where
  "ex_person_only =
     \<lparr>personImage = Some \<lparr>preview = ''data:image/png;base64,AAAA'', img_file = ex_file\<rparr>,
      clothingImage = None,
      resultImage = None,
      isLoading = False,
      isRefining = False,
      error = None,
      refinePrompt = []\<rparr>"

definition ex_with_result :: ui_state where
  "ex_with_result =
     \<lparr>personImage = Some \<lparr>preview = ''data:image/png;base64,AAAA'', img_file = ex_file\<rparr>,
      clothingImage = Some \<lparr>preview = ''data:image/png;base64,AAAA'', img_file = ex_file\<rparr>,
      resultImage = Some ''data:image/png;base64,AAAA'',
      isLoading = False,
      isRefining = False,
      error = None,
      refinePrompt = ''make it red''\<rparr>"

section \<open>Properties of the proxy handler\<close>

subsection \<open>Auxiliary facts\<close>

text \<open>
  On both error paths the body has been read by \<open>arrayBuffer()\<close> before \<open>text()\<close> is
  called, so \<open>text()\<close> rejects whenever the upstream has sent a body.
\<close>

lemma relay_error_path_rejects:
  "\<not> ok r \<Longrightarrow> body r = Stream bs \<Longrightarrow> relay rt r = Inl (JsError body_unusable_message)"
  by (simp add: relay_def arrayBuffer_def text_of_body_def consume_def ok_def)

lemma relay_success:
  "ok r \<Longrightarrow> body r = Stream B \<or> (body r = NullBody \<and> B = []) \<Longrightarrow>
   relay rt r =
     Inr \<lparr>res_status = status r,
          res_headers = [''Content-Type'' \<mapsto> or_default (content_type r) ''application/json''],
          sent = Some (Buffer B)\<rparr>"
  by (auto simp: relay_def arrayBuffer_def consume_def ok_def send_def setHeader_def
      set_status_def res0_def)

lemma handler_resolved:
  "req_method req = ''POST'' \<Longrightarrow> env ''GEMINI_API_URL'' = Some u \<Longrightarrow> u \<noteq> [] \<Longrightarrow>
   env ''GEMINI_API_KEY'' = Some k \<Longrightarrow> k \<noteq> [] \<Longrightarrow>
   upstream (proxy_call rt u k req) = Inr r \<Longrightarrow>
   handler rt env upstream req =
     (case relay rt r of Inl err \<Rightarrow> server_error err | Inr x \<Rightarrow> x, [proxy_call rt u k req])"
  by (simp add: handler_def falsy_def split: sum.splits)

lemma ex_post_method: "req_method ex_post = ''POST''"
  by (simp add: ex_post_def)

lemma ex_env_url: "ex_env ''GEMINI_API_URL'' = Some ''https://upstream.example/v1''"
  by (simp add: ex_env_def)

lemma ex_env_key: "ex_env ''GEMINI_API_KEY'' = Some ''secret''"
  by (simp add: ex_env_def)

lemma ex_post_call:
  "proxy_call ex_runtime ''https://upstream.example/v1'' ''secret'' ex_post = ex_call"
  by (simp add: proxy_call_def ex_runtime_def ex_post_def ex_call_def)

lemma ex_handler_resolved:
  "handler ex_runtime ex_env (resolves r) ex_post =
     (case relay ex_runtime r of Inl err \<Rightarrow> server_error err | Inr x \<Rightarrow> x, [ex_call])"
  using handler_resolved [of ex_post ex_env "''https://upstream.example/v1''" "''secret''"
      "resolves r" ex_runtime r]
  by (simp add: ex_post_method ex_env_url ex_env_key ex_post_call resolves_def)

subsection \<open>Upstream status 429\<close>

text \<open>
  Claim C1 says that an upstream response with status 429 is answered with status 429, a
  quota-exceeded message and the upstream text. On a POST request with both variables
  set and an upstream that resolves with status 429 and the body \<open>{}\<close>, the handler
  answers with status 500 and the envelope of its \<open>catch\<close> block: the \<open>TypeError\<close> of the
  second read of the body is what \<open>details\<close> holds.
\<close>

theorem proxy_quota_response_answered_500:
  "status ex_quota_response = 429 \<and>
   handler ex_runtime ex_env (resolves ex_quota_response) ex_post =
     (\<lparr>res_status = 500, res_headers = Map.empty,
       sent = Some (Json [(''error'', ''Server error''), (''details'', body_unusable_message)])\<rparr>,
      [ex_call])"
proof -
  have "\<not> ok ex_quota_response" and "body ex_quota_response = Stream [123, 125]"
    by (simp_all add: ok_def ex_quota_response_def)
  then have "relay ex_runtime ex_quota_response = Inl (JsError body_unusable_message)"
    by (rule relay_error_path_rejects)
  then have "handler ex_runtime ex_env (resolves ex_quota_response) ex_post =
      (server_error (JsError body_unusable_message), [ex_call])"
    by (simp add: ex_handler_resolved)
  then show ?thesis
    by (simp add: server_error_def json_def set_status_def res0_def ex_quota_response_def)
qed

subsection \<open>Successful relay\<close>

text \<open>
  Claim C3, amended: on a POST request with both variables set, an upstream response
  with status 200, content type \<open>T\<close> and body bytes \<open>B\<close> (no bytes when the body is null)
  is answered with status 200 and exactly the bytes \<open>B\<close>, after one upstream call; the
  \<open>Content-Type\<close> of the answer is \<open>T\<close> when \<open>T\<close> is not the empty string, and
  \<open>application/json\<close> when it is.
\<close>

theorem proxy_success_passthrough:
  assumes "req_method req = ''POST''"
    and "env ''GEMINI_API_URL'' = Some u" and "u \<noteq> []"
    and "env ''GEMINI_API_KEY'' = Some k" and "k \<noteq> []"
    and "upstream (proxy_call rt u k req) = Inr r"
    and "status r = 200" and "content_type r = Some T"
    and "body r = Stream B \<or> (body r = NullBody \<and> B = [])"
  shows "(T \<noteq> [] \<longrightarrow>
            handler rt env upstream req =
              (\<lparr>res_status = 200, res_headers = [''Content-Type'' \<mapsto> T],
                sent = Some (Buffer B)\<rparr>, [proxy_call rt u k req])) \<and>
         (T = [] \<longrightarrow>
            handler rt env upstream req =
              (\<lparr>res_status = 200, res_headers = [''Content-Type'' \<mapsto> ''application/json''],
                sent = Some (Buffer B)\<rparr>, [proxy_call rt u k req]))"
proof -
  have "ok r" using assms(7) by (simp add: ok_def)
  then have "relay rt r =
      Inr \<lparr>res_status = 200,
           res_headers = [''Content-Type'' \<mapsto> or_default (Some T) ''application/json''],
           sent = Some (Buffer B)\<rparr>"
    using relay_success [of r B rt] assms(7-9) by simp
  then have "handler rt env upstream req =
      (\<lparr>res_status = 200,
        res_headers = [''Content-Type'' \<mapsto> or_default (Some T) ''application/json''],
        sent = Some (Buffer B)\<rparr>, [proxy_call rt u k req])"
    using assms(1-6) by (simp add: handler_resolved)
  then show ?thesis
    by (simp add: or_default_def)
qed

text \<open>
  The theorem at a PNG response of three bytes and at a response of three bytes whose
  content type is the empty string.
\<close>

theorem proxy_success_passthrough_witness:
  "req_method ex_post = ''POST'' \<and>
   ex_env ''GEMINI_API_URL'' = Some ''https://upstream.example/v1'' \<and>
   ex_env ''GEMINI_API_KEY'' = Some ''secret'' \<and>
   resolves ex_png_response ex_call = Inr ex_png_response \<and>
   status ex_png_response = 200 \<and>
   content_type ex_png_response = Some ''image/png'' \<and>
   body ex_png_response = Stream [1, 2, 3] \<and>
   handler ex_runtime ex_env (resolves ex_png_response) ex_post =
     (\<lparr>res_status = 200, res_headers = [''Content-Type'' \<mapsto> ''image/png''],
       sent = Some (Buffer [1, 2, 3])\<rparr>, [ex_call]) \<and>
   resolves ex_empty_type_response ex_call = Inr ex_empty_type_response \<and>
   status ex_empty_type_response = 200 \<and>
   content_type ex_empty_type_response = Some [] \<and>
   body ex_empty_type_response = Stream [1, 2, 3] \<and>
   handler ex_runtime ex_env (resolves ex_empty_type_response) ex_post =
     (\<lparr>res_status = 200, res_headers = [''Content-Type'' \<mapsto> ''application/json''],
       sent = Some (Buffer [1, 2, 3])\<rparr>, [ex_call])"
proof -
  have r: "status ex_png_response = 200" "content_type ex_png_response = Some ''image/png''"
    "body ex_png_response = Stream [1, 2, 3]"
    by (simp_all add: ex_png_response_def)
  have up: "resolves ex_png_response ex_call = Inr ex_png_response"
    by (simp add: resolves_def)
  have e: "status ex_empty_type_response = 200" "content_type ex_empty_type_response = Some []"
    "body ex_empty_type_response = Stream [1, 2, 3]"
    by (simp_all add: ex_empty_type_response_def)
  have upe: "resolves ex_empty_type_response ex_call = Inr ex_empty_type_response"
    by (simp add: resolves_def)
  have png: "handler ex_runtime ex_env (resolves ex_png_response) ex_post =
     (\<lparr>res_status = 200, res_headers = [''Content-Type'' \<mapsto> ''image/png''],
       sent = Some (Buffer [1, 2, 3])\<rparr>, [ex_call])"
    using proxy_success_passthrough [of ex_post ex_env "''https://upstream.example/v1''"
        "''secret''" "resolves ex_png_response" ex_runtime ex_png_response "''image/png''"
        "[1, 2, 3]"]
    by (simp add: ex_post_method ex_env_url ex_env_key ex_post_call up r)
  have empty: "handler ex_runtime ex_env (resolves ex_empty_type_response) ex_post =
     (\<lparr>res_status = 200, res_headers = [''Content-Type'' \<mapsto> ''application/json''],
       sent = Some (Buffer [1, 2, 3])\<rparr>, [ex_call])"
    using proxy_success_passthrough [of ex_post ex_env "''https://upstream.example/v1''"
        "''secret''" "resolves ex_empty_type_response" ex_runtime ex_empty_type_response "[]"
        "[1, 2, 3]"]
    by (simp add: ex_post_method ex_env_url ex_env_key ex_post_call upe e)
  show ?thesis
    using png empty by (simp add: ex_post_method ex_env_url ex_env_key up r upe e)
qed

text \<open>
  As first stated, C3 fails where the upstream's content type is the empty string:
  \<open>||\<close> replaces it by \<open>application/json\<close>.
\<close>

theorem proxy_empty_content_type_counterexample:
  "status ex_empty_type_response = 200 \<and>
   content_type ex_empty_type_response = Some [] \<and>
   body ex_empty_type_response = Stream [1, 2, 3] \<and>
   handler ex_runtime ex_env (resolves ex_empty_type_response) ex_post =
     (\<lparr>res_status = 200, res_headers = [''Content-Type'' \<mapsto> ''application/json''],
       sent = Some (Buffer [1, 2, 3])\<rparr>, [ex_call])"
proof -
  have r: "status ex_empty_type_response = 200" "content_type ex_empty_type_response = Some []"
    "body ex_empty_type_response = Stream [1, 2, 3]"
    by (simp_all add: ex_empty_type_response_def)
  have "ok ex_empty_type_response"
    by (simp add: ok_def r)
  then have "relay ex_runtime ex_empty_type_response =
      Inr \<lparr>res_status = 200, res_headers = [''Content-Type'' \<mapsto> ''application/json''],
           sent = Some (Buffer [1, 2, 3])\<rparr>"
    using relay_success [of ex_empty_type_response "[1, 2, 3]" ex_runtime]
    by (simp add: or_default_def r)
  then show ?thesis
    by (simp add: ex_handler_resolved r)
qed

text \<open>
  Claim C10: when the upstream response has no content-type header and is relayed (its
  status is a success status and its body can be read), the relayed response has
  \<open>Content-Type\<close> \<open>application/json\<close>.
\<close>

theorem proxy_default_content_type:
  assumes "req_method req = ''POST''"
    and "env ''GEMINI_API_URL'' = Some u" and "u \<noteq> []"
    and "env ''GEMINI_API_KEY'' = Some k" and "k \<noteq> []"
    and "upstream (proxy_call rt u k req) = Inr r"
    and "content_type r = None"
    and "ok r"
    and "body r = Stream B \<or> (body r = NullBody \<and> B = [])"
  shows "handler rt env upstream req =
     (\<lparr>res_status = status r, res_headers = [''Content-Type'' \<mapsto> ''application/json''],
       sent = Some (Buffer B)\<rparr>, [proxy_call rt u k req])"
proof -
  have "relay rt r =
      Inr \<lparr>res_status = status r, res_headers = [''Content-Type'' \<mapsto> ''application/json''],
           sent = Some (Buffer B)\<rparr>"
    using relay_success [OF assms(8,9), of rt] assms(7) by (simp add: or_default_def)
  then show ?thesis
    using assms(1-6) by (simp add: handler_resolved)
qed

text \<open>The theorem at a response of three bytes without a content type.\<close>

theorem proxy_default_content_type_witness:
  "req_method ex_post = ''POST'' \<and>
   ex_env ''GEMINI_API_URL'' = Some ''https://upstream.example/v1'' \<and>
   ex_env ''GEMINI_API_KEY'' = Some ''secret'' \<and>
   resolves ex_untyped_response ex_call = Inr ex_untyped_response \<and>
   content_type ex_untyped_response = None \<and>
   ok ex_untyped_response \<and>
   body ex_untyped_response = Stream [1, 2, 3] \<and>
   handler ex_runtime ex_env (resolves ex_untyped_response) ex_post =
     (\<lparr>res_status = 200, res_headers = [''Content-Type'' \<mapsto> ''application/json''],
       sent = Some (Buffer [1, 2, 3])\<rparr>, [ex_call])"
proof -
  have r: "status ex_untyped_response = 200" "content_type ex_untyped_response = None"
    "body ex_untyped_response = Stream [1, 2, 3]"
    by (simp_all add: ex_untyped_response_def)
  have ok: "ok ex_untyped_response"
    by (simp add: ok_def r)
  have up: "resolves ex_untyped_response ex_call = Inr ex_untyped_response"
    by (simp add: resolves_def)
  show ?thesis
    using proxy_default_content_type [of ex_post ex_env "''https://upstream.example/v1''"
        "''secret''" "resolves ex_untyped_response" ex_runtime ex_untyped_response "[1, 2, 3]"]
    by (simp add: ex_post_method ex_env_url ex_env_key ex_post_call up r ok)
qed

subsection \<open>Requests that never reach the upstream\<close>

text \<open>
  Claim C4: a request whose method is not POST is answered with status 405 and the
  header \<open>Allow: POST\<close>; no upstream call is made.
\<close>

theorem proxy_rejects_other_methods:
  assumes "req_method req \<noteq> ''POST''"
  shows "handler rt env upstream req =
     (\<lparr>res_status = 405, res_headers = [''Allow'' \<mapsto> ''POST''],
       sent = Some (Ended ''Method Not Allowed'')\<rparr>, [])"
  using assms
  by (simp add: handler_def end_with_def set_status_def setHeader_def res0_def)

text \<open>The theorem at a GET request.\<close>

theorem proxy_rejects_other_methods_witness:
  "req_method ex_get \<noteq> ''POST'' \<and>
   handler ex_runtime ex_env (resolves ex_png_response) ex_get =
     (\<lparr>res_status = 405, res_headers = [''Allow'' \<mapsto> ''POST''],
       sent = Some (Ended ''Method Not Allowed'')\<rparr>, [])"
  using proxy_rejects_other_methods [of ex_get ex_runtime ex_env "resolves ex_png_response"]
  by (simp add: ex_get_def)

text \<open>
  Claim C5: a POST request is answered with status 500 and an error body, without any
  upstream call, when \<open>GEMINI_API_URL\<close> or \<open>GEMINI_API_KEY\<close> is unset or empty.
\<close>

theorem proxy_missing_configuration:
  assumes "req_method req = ''POST''"
    and "env ''GEMINI_API_URL'' = None \<or> env ''GEMINI_API_URL'' = Some [] \<or>
         env ''GEMINI_API_KEY'' = None \<or> env ''GEMINI_API_KEY'' = Some []"
  shows "handler rt env upstream req =
     (\<lparr>res_status = 500, res_headers = Map.empty,
       sent = Some (Json [(''error'', ''Missing GEMINI_API_URL or GEMINI_API_KEY'')])\<rparr>, [])"
proof -
  have "falsy (env ''GEMINI_API_URL'') \<or> falsy (env ''GEMINI_API_KEY'')"
    using assms(2) by (auto simp: falsy_def)
  then show ?thesis
    using assms(1) by (simp add: handler_def json_def set_status_def res0_def)
qed

text \<open>The theorem at an environment that has the URL only.\<close>

theorem proxy_missing_configuration_witness:
  "req_method ex_post = ''POST'' \<and> ex_env_no_key ''GEMINI_API_KEY'' = None \<and>
   handler ex_runtime ex_env_no_key (resolves ex_png_response) ex_post =
     (\<lparr>res_status = 500, res_headers = Map.empty,
       sent = Some (Json [(''error'', ''Missing GEMINI_API_URL or GEMINI_API_KEY'')])\<rparr>, [])"
proof -
  have k: "ex_env_no_key ''GEMINI_API_KEY'' = None"
    by (simp add: ex_env_no_key_def)
  show ?thesis
    using proxy_missing_configuration [of ex_post ex_env_no_key ex_runtime
        "resolves ex_png_response"]
    by (simp add: ex_post_method k)
qed

section \<open>Properties of the generation client\<close>

subsection \<open>Auxiliary facts\<close>

text \<open>The loop keeps the last part of each kind, or the initial value when there is none.\<close>

lemma last_opt_eq_None: "last_opt xs = None \<longleftrightarrow> xs = []"
  by (induction xs) (auto split: option.splits)

lemma scan_parts_last:
  "scan_parts ps acc =
     \<lparr>imageBase64 = (if inline_parts ps = [] then imageBase64 acc else last_inline_payload ps),
      result_text = (if text_parts ps = [] then result_text acc else last_text_fragment ps)\<rparr>"
proof (induction ps arbitrary: acc)
  case Nil
  show ?case by (simp add: inline_parts_def text_parts_def)
next
  case (Cons p ps)
  show ?case
  proof (cases "inlineData p")
    case None
    then show ?thesis
      using Cons.IH
      by (auto simp: inline_parts_def text_parts_def last_inline_payload_def
          last_text_fragment_def last_opt_eq_None split: option.splits)
  next
    case (Some b)
    then show ?thesis
      using Cons.IH
      by (auto simp: inline_parts_def text_parts_def last_inline_payload_def
          last_text_fragment_def payload_of_def last_opt_eq_None split: option.splits)
  qed
qed

lemma scan_parts_init:
  "scan_parts ps \<lparr>imageBase64 = None, result_text = None\<rparr> =
     \<lparr>imageBase64 = last_inline_payload ps, result_text = last_text_fragment ps\<rparr>"
  by (simp add: scan_parts_last last_inline_payload_def last_text_fragment_def)

lemma extract_result_parts:
  "candidates response = Some (c # cs) \<Longrightarrow> cand_content c = Some ct \<Longrightarrow> parts ct = Some ps \<Longrightarrow>
   extract_result response =
     Inr \<lparr>imageBase64 = last_inline_payload ps, result_text = last_text_fragment ps\<rparr>"
  by (simp add: extract_result_def scan_parts_init)

lemma extract_result_no_candidates:
  "candidates response = None \<or> candidates response = Some [] \<Longrightarrow>
   extract_result response = Inr \<lparr>imageBase64 = None, result_text = None\<rparr>"
  by (auto simp: extract_result_def)

text \<open>A first candidate without \<open>content\<close> makes the operation reject.\<close>

lemma extract_result_no_content:
  "candidates response = Some (c # cs) \<Longrightarrow> cand_content c = None \<Longrightarrow>
   extract_result response = Inl (JsError no_content_message)"
  by (simp add: extract_result_def)

lemma performVirtualTryOn_resolved:
  "env ''API_KEY'' = Some key \<Longrightarrow> key \<noteq> [] \<Longrightarrow>
   provider (tryon_request key pb cb pm cm) = Inr response \<Longrightarrow>
   performVirtualTryOn env provider pb cb pm cm =
     (extract_result response, [tryon_request key pb cb pm cm])"
  by (simp add: performVirtualTryOn_def falsy_def)

lemma refineImage_resolved:
  "env ''API_KEY'' = Some key \<Longrightarrow> key \<noteq> [] \<Longrightarrow>
   provider (refine_request key ib mt up) = Inr response \<Longrightarrow>
   refineImage env provider ib mt up =
     (extract_result response, [refine_request key ib mt up])"
  by (simp add: refineImage_def falsy_def)

lemma single_last_inline:
  "inline_parts ps = [p] \<Longrightarrow> last_inline_payload ps = payload_of p"
  by (simp add: last_inline_payload_def)

lemma single_last_text:
  "text_parts ps = [p] \<Longrightarrow> last_text_fragment ps = part_text p"
  by (simp add: last_text_fragment_def)

lemma ex_client_env_key: "ex_client_env ''API_KEY'' = Some ''k''"
  by (simp add: ex_client_env_def)

lemma ex_tryon_answers:
  "fst (performVirtualTryOn ex_client_env (answers r) pb cb pm cm) = extract_result r"
  using performVirtualTryOn_resolved [of ex_client_env "''k''" "answers r" pb cb pm cm r]
  by (simp add: ex_client_env_key answers_def)

lemma ex_refine_answers:
  "fst (refineImage ex_client_env (answers r) ib mt up) = extract_result r"
  using refineImage_resolved [of ex_client_env "''k''" "answers r" ib mt up r]
  by (simp add: ex_client_env_key answers_def)

lemma extract_response_of:
  "extract_result (response_of ps) =
     Inr \<lparr>imageBase64 = last_inline_payload ps, result_text = last_text_fragment ps\<rparr>"
  by (simp add: extract_result_def response_of_def scan_parts_init)

subsection \<open>What the operations return\<close>

text \<open>
  Claim C2, amended, for each operation by itself: when the key is set and the provider
  resolves the operation's request with a response, the operation returns both fields
  null if the response has no candidates; if the first candidate has content with a list
  of parts, it returns the payload of the last part that has \<open>inlineData\<close> and the text
  of the last part that has no \<open>inlineData\<close> and a non-empty text, each null if there is
  no such part. In particular, when exactly one part has \<open>inlineData\<close> and exactly one
  other part has a non-empty text, the result holds exactly those two values. The first
  conjunct is about \<open>performVirtualTryOn\<close>, the second about \<open>refineImage\<close>.
\<close>

theorem client_reads_last_parts:
  assumes "env ''API_KEY'' = Some key" and "key \<noteq> []"
  shows
    "(provider (tryon_request key pb cb pm cm) = Inr response \<longrightarrow>
        (candidates response = None \<or> candidates response = Some [] \<longrightarrow>
           fst (performVirtualTryOn env provider pb cb pm cm) =
             Inr \<lparr>imageBase64 = None, result_text = None\<rparr>) \<and>
        (candidates response = Some (c # cs) \<and> cand_content c = Some ct \<and>
         parts ct = Some ps \<longrightarrow>
           fst (performVirtualTryOn env provider pb cb pm cm) =
             Inr \<lparr>imageBase64 = last_inline_payload ps,
                  result_text = last_text_fragment ps\<rparr> \<and>
           (inline_parts ps = [p_image] \<and> text_parts ps = [p_text] \<longrightarrow>
              fst (performVirtualTryOn env provider pb cb pm cm) =
                Inr \<lparr>imageBase64 = payload_of p_image, result_text = part_text p_text\<rparr>))) \<and>
     (provider (refine_request key ib mt up) = Inr response \<longrightarrow>
        (candidates response = None \<or> candidates response = Some [] \<longrightarrow>
           fst (refineImage env provider ib mt up) =
             Inr \<lparr>imageBase64 = None, result_text = None\<rparr>) \<and>
        (candidates response = Some (c # cs) \<and> cand_content c = Some ct \<and>
         parts ct = Some ps \<longrightarrow>
           fst (refineImage env provider ib mt up) =
             Inr \<lparr>imageBase64 = last_inline_payload ps,
                  result_text = last_text_fragment ps\<rparr> \<and>
           (inline_parts ps = [p_image] \<and> text_parts ps = [p_text] \<longrightarrow>
              fst (refineImage env provider ib mt up) =
                Inr \<lparr>imageBase64 = payload_of p_image, result_text = part_text p_text\<rparr>)))"
proof -
  have reading:
    "(candidates response = None \<or> candidates response = Some [] \<longrightarrow>
        extract_result response = Inr \<lparr>imageBase64 = None, result_text = None\<rparr>) \<and>
     (candidates response = Some (c # cs) \<and> cand_content c = Some ct \<and> parts ct = Some ps \<longrightarrow>
        extract_result response =
          Inr \<lparr>imageBase64 = last_inline_payload ps, result_text = last_text_fragment ps\<rparr> \<and>
        (inline_parts ps = [p_image] \<and> text_parts ps = [p_text] \<longrightarrow>
           extract_result response =
             Inr \<lparr>imageBase64 = payload_of p_image, result_text = part_text p_text\<rparr>))"
    by (auto simp: extract_result_no_candidates extract_result_parts single_last_inline
        single_last_text)
  have t: "fst (performVirtualTryOn env provider pb cb pm cm) = extract_result response"
    if "provider (tryon_request key pb cb pm cm) = Inr response"
    using assms that by (simp add: performVirtualTryOn_resolved)
  have r: "fst (refineImage env provider ib mt up) = extract_result response"
    if "provider (refine_request key ib mt up) = Inr response"
    using assms that by (simp add: refineImage_resolved)
  show ?thesis
  proof (intro conjI impI)
    assume "provider (tryon_request key pb cb pm cm) = Inr response"
    note eq = t [OF this]
    {
      assume "candidates response = None \<or> candidates response = Some []"
      with reading show "fst (performVirtualTryOn env provider pb cb pm cm) =
          Inr \<lparr>imageBase64 = None, result_text = None\<rparr>"
        unfolding eq by blast
    next
      assume "candidates response = Some (c # cs) \<and> cand_content c = Some ct \<and>
          parts ct = Some ps"
      with reading show "fst (performVirtualTryOn env provider pb cb pm cm) =
          Inr \<lparr>imageBase64 = last_inline_payload ps, result_text = last_text_fragment ps\<rparr>"
        unfolding eq by blast
    next
      assume "candidates response = Some (c # cs) \<and> cand_content c = Some ct \<and>
          parts ct = Some ps"
        and "inline_parts ps = [p_image] \<and> text_parts ps = [p_text]"
      with reading show "fst (performVirtualTryOn env provider pb cb pm cm) =
          Inr \<lparr>imageBase64 = payload_of p_image, result_text = part_text p_text\<rparr>"
        unfolding eq by blast
    }
  next
    assume "provider (refine_request key ib mt up) = Inr response"
    note eq = r [OF this]
    {
      assume "candidates response = None \<or> candidates response = Some []"
      with reading show "fst (refineImage env provider ib mt up) =
          Inr \<lparr>imageBase64 = None, result_text = None\<rparr>"
        unfolding eq by blast
    next
      assume "candidates response = Some (c # cs) \<and> cand_content c = Some ct \<and>
          parts ct = Some ps"
      with reading show "fst (refineImage env provider ib mt up) =
          Inr \<lparr>imageBase64 = last_inline_payload ps, result_text = last_text_fragment ps\<rparr>"
        unfolding eq by blast
    next
      assume "candidates response = Some (c # cs) \<and> cand_content c = Some ct \<and>
          parts ct = Some ps"
        and "inline_parts ps = [p_image] \<and> text_parts ps = [p_text]"
      with reading show "fst (refineImage env provider ib mt up) =
          Inr \<lparr>imageBase64 = payload_of p_image, result_text = part_text p_text\<rparr>"
        unfolding eq by blast
    }
  qed
qed

text \<open>
  The theorem at three responses: one without candidates, one with a single part of each
  kind, and one with several parts of each kind, where the last payload \<open>C\<close> and the
  last text of a part without \<open>inlineData\<close>, \<open>y\<close>, are returned.
\<close>

theorem client_reads_last_parts_witness:
  "ex_client_env ''API_KEY'' = Some ''k'' \<and>
   candidates ex_no_candidates = Some [] \<and>
   fst (performVirtualTryOn ex_client_env (answers ex_no_candidates)
          (Some ''AAAA'') (Some ''BBBB'') ''image/png'' ''image/jpeg'') =
     Inr \<lparr>imageBase64 = None, result_text = None\<rparr> \<and>
   fst (refineImage ex_client_env (answers ex_no_candidates)
          (Some ''AAAA'') ''image/png'' ''make it red'') =
     Inr \<lparr>imageBase64 = None, result_text = None\<rparr> \<and>
   inline_parts ex_one_each = [image_part ''A''] \<and>
   text_parts ex_one_each = [text_part ''x''] \<and>
   fst (performVirtualTryOn ex_client_env (answers (response_of ex_one_each))
          (Some ''AAAA'') (Some ''BBBB'') ''image/png'' ''image/jpeg'') =
     Inr \<lparr>imageBase64 = Some ''A'', result_text = Some ''x''\<rparr> \<and>
   fst (refineImage ex_client_env (answers (response_of ex_one_each))
          (Some ''AAAA'') ''image/png'' ''make it red'') =
     Inr \<lparr>imageBase64 = Some ''A'', result_text = Some ''x''\<rparr> \<and>
   first_inline_payload ex_mixed = Some ''A'' \<and>
   first_text_fragment ex_mixed = Some ''x'' \<and>
   fst (performVirtualTryOn ex_client_env (answers (response_of ex_mixed))
          (Some ''AAAA'') (Some ''BBBB'') ''image/png'' ''image/jpeg'') =
     Inr \<lparr>imageBase64 = Some ''C'', result_text = Some ''y''\<rparr> \<and>
   fst (refineImage ex_client_env (answers (response_of ex_mixed))
          (Some ''AAAA'') ''image/png'' ''make it red'') =
     Inr \<lparr>imageBase64 = Some ''C'', result_text = Some ''y''\<rparr>"
proof -
  have n: "candidates ex_no_candidates = Some []"
    by (simp add: ex_no_candidates_def)
  have c: "candidates (response_of qs) = Some [\<lparr>cand_content = Some \<lparr>parts = Some qs\<rparr>\<rparr>]"
      "cand_content \<lparr>cand_content = Some \<lparr>parts = Some qs\<rparr>\<rparr> = Some \<lparr>parts = Some qs\<rparr>"
      "parts \<lparr>parts = Some qs\<rparr> = Some qs" for qs
    by (simp_all add: response_of_def)
  have i: "inline_parts ex_one_each = [image_part ''A'']"
    by (simp add: inline_parts_def ex_one_each_def image_part_def text_part_def)
  have x: "text_parts ex_one_each = [text_part ''x'']"
    by (simp add: text_parts_def ex_one_each_def image_part_def text_part_def falsy_def)
  have p: "payload_of (image_part ''A'') = Some ''A''" "part_text (text_part ''x'') = Some ''x''"
    by (simp_all add: payload_of_def image_part_def text_part_def)
  have li: "last_inline_payload ex_mixed = Some ''C''"
    by (simp add: last_inline_payload_def inline_parts_def payload_of_def ex_mixed_def
        image_part_def text_part_def)
  have lt: "last_text_fragment ex_mixed = Some ''y''"
    by (simp add: last_text_fragment_def text_parts_def falsy_def ex_mixed_def
        image_part_def text_part_def)
  have fi: "first_inline_payload ex_mixed = Some ''A''"
    by (simp add: ex_mixed_def image_part_def)
  have ft: "first_text_fragment ex_mixed = Some ''x''"
    by (simp add: ex_mixed_def image_part_def text_part_def)
  have a: "answers resp q = Inr resp" for resp q
    by (simp add: answers_def)
  note none = client_reads_last_parts [where env = ex_client_env and key = "''k''"
      and provider = "answers ex_no_candidates"
      and pb = "Some ''AAAA''" and cb = "Some ''BBBB''"
      and pm = "''image/png''" and cm = "''image/jpeg''"
      and ib = "Some ''AAAA''" and mt = "''image/png''" and up = "''make it red''"
      and response = ex_no_candidates]
  have none_t: "fst (performVirtualTryOn ex_client_env (answers ex_no_candidates)
          (Some ''AAAA'') (Some ''BBBB'') ''image/png'' ''image/jpeg'') =
       Inr \<lparr>imageBase64 = None, result_text = None\<rparr>"
    and none_r: "fst (refineImage ex_client_env (answers ex_no_candidates)
          (Some ''AAAA'') ''image/png'' ''make it red'') =
       Inr \<lparr>imageBase64 = None, result_text = None\<rparr>"
    using none by (simp_all add: ex_client_env_key a n)
  note one = client_reads_last_parts [where env = ex_client_env and key = "''k''"
      and provider = "answers (response_of ex_one_each)"
      and pb = "Some ''AAAA''" and cb = "Some ''BBBB''"
      and pm = "''image/png''" and cm = "''image/jpeg''"
      and ib = "Some ''AAAA''" and mt = "''image/png''" and up = "''make it red''"
      and response = "response_of ex_one_each"
      and c = "\<lparr>cand_content = Some \<lparr>parts = Some ex_one_each\<rparr>\<rparr>" and cs = "[]"
      and ct = "\<lparr>parts = Some ex_one_each\<rparr>" and ps = ex_one_each
      and p_image = "image_part ''A''" and p_text = "text_part ''x''"]
  have one_t: "fst (performVirtualTryOn ex_client_env (answers (response_of ex_one_each))
          (Some ''AAAA'') (Some ''BBBB'') ''image/png'' ''image/jpeg'') =
       Inr \<lparr>imageBase64 = Some ''A'', result_text = Some ''x''\<rparr>"
    and one_r: "fst (refineImage ex_client_env (answers (response_of ex_one_each))
          (Some ''AAAA'') ''image/png'' ''make it red'') =
       Inr \<lparr>imageBase64 = Some ''A'', result_text = Some ''x''\<rparr>"
    using one by (simp_all add: ex_client_env_key a c i x p single_last_inline single_last_text)
  note mixed = client_reads_last_parts [where env = ex_client_env and key = "''k''"
      and provider = "answers (response_of ex_mixed)"
      and pb = "Some ''AAAA''" and cb = "Some ''BBBB''"
      and pm = "''image/png''" and cm = "''image/jpeg''"
      and ib = "Some ''AAAA''" and mt = "''image/png''" and up = "''make it red''"
      and response = "response_of ex_mixed"
      and c = "\<lparr>cand_content = Some \<lparr>parts = Some ex_mixed\<rparr>\<rparr>" and cs = "[]"
      and ct = "\<lparr>parts = Some ex_mixed\<rparr>" and ps = ex_mixed]
  have mixed_t: "fst (performVirtualTryOn ex_client_env (answers (response_of ex_mixed))
          (Some ''AAAA'') (Some ''BBBB'') ''image/png'' ''image/jpeg'') =
       Inr \<lparr>imageBase64 = Some ''C'', result_text = Some ''y''\<rparr>"
    and mixed_r: "fst (refineImage ex_client_env (answers (response_of ex_mixed))
          (Some ''AAAA'') ''image/png'' ''make it red'') =
       Inr \<lparr>imageBase64 = Some ''C'', result_text = Some ''y''\<rparr>"
    using mixed by (simp_all add: ex_client_env_key a c li lt)
  show ?thesis
    using none_t none_r one_t one_r mixed_t mixed_r
    by (simp add: ex_client_env_key n i x fi ft)
qed

text \<open>
  As first stated, C2 fails on a response with two image parts and two text parts: the
  first payload is \<open>A\<close> and the first text is \<open>x\<close>, and the operation returns \<open>B\<close> and
  \<open>y\<close>.
\<close>

theorem client_first_parts_counterexample:
  "first_inline_payload ex_two_each = Some ''A'' \<and>
   first_text_fragment ex_two_each = Some ''x'' \<and>
   fst (performVirtualTryOn ex_client_env (answers (response_of ex_two_each))
          (Some ''AAAA'') (Some ''BBBB'') ''image/png'' ''image/jpeg'') =
     Inr \<lparr>imageBase64 = Some ''B'', result_text = Some ''y''\<rparr>"
proof -
  have "last_inline_payload ex_two_each = Some ''B''"
    by (simp add: last_inline_payload_def inline_parts_def payload_of_def ex_two_each_def
        image_part_def text_part_def)
  moreover have "last_text_fragment ex_two_each = Some ''y''"
    by (simp add: last_text_fragment_def text_parts_def falsy_def ex_two_each_def
        image_part_def text_part_def)
  moreover have "first_inline_payload ex_two_each = Some ''A''"
    by (simp add: ex_two_each_def image_part_def)
  moreover have "first_text_fragment ex_two_each = Some ''x''"
    by (simp add: ex_two_each_def image_part_def text_part_def)
  ultimately show ?thesis
    by (simp add: ex_tryon_answers extract_response_of)
qed

subsection \<open>The credential\<close>

text \<open>
  Claim C7: with \<open>API_KEY\<close> unset, \<open>performVirtualTryOn\<close> and \<open>refineImage\<close> throw, whatever
  their arguments, and no network call has been made.
\<close>

theorem client_requires_api_key:
  assumes "env ''API_KEY'' = None"
  shows "performVirtualTryOn env provider pb cb pm cm =
           (Inl (JsError ''API_KEY environment variable is not set.''), []) \<and>
         refineImage env provider ib mt up =
           (Inl (JsError ''API_KEY environment variable is not set.''), [])"
  using assms
  by (simp add: performVirtualTryOn_def refineImage_def falsy_def api_key_message_def)

text \<open>The theorem at the empty environment.\<close>

theorem client_requires_api_key_witness:
  "Map.empty ''API_KEY'' = (None :: string option) \<and>
   performVirtualTryOn Map.empty (answers (response_of ex_one_each))
       (Some ''AAAA'') (Some ''BBBB'') ''image/png'' ''image/jpeg'' =
     (Inl (JsError ''API_KEY environment variable is not set.''), []) \<and>
   refineImage Map.empty (answers (response_of ex_one_each))
       (Some ''AAAA'') ''image/png'' ''make it red'' =
     (Inl (JsError ''API_KEY environment variable is not set.''), [])"
  using client_requires_api_key [of Map.empty "answers (response_of ex_one_each)"
      "Some ''AAAA''" "Some ''BBBB''" "''image/png''" "''image/jpeg''"
      "Some ''AAAA''" "''image/png''" "''make it red''"]
  by simp

section \<open>Properties of the UI controller\<close>

subsection \<open>Generate\<close>

text \<open>
  Claim C8: in a state where the person image or the clothing image is missing, the
  generate action sets the error message and does nothing else: the generation client
  is not invoked, no network call is made, and the loading flag keeps its value.
\<close>

theorem generate_needs_both_images:
  assumes "personImage s = None \<or> clothingImage s = None"
  shows "handleVirtualTryOn env provider s =
           \<lparr>final = s\<lparr>error := Some ''Please upload both a person and a clothing image.''\<rparr>,
            invoked = [], network = []\<rparr> \<and>
         isLoading (final (handleVirtualTryOn env provider s)) = isLoading s"
  using assms by (auto simp: handleVirtualTryOn_def)

text \<open>The theorem at a state with a person image only.\<close>

theorem generate_needs_both_images_witness:
  "clothingImage ex_person_only = None \<and>
   handleVirtualTryOn ex_client_env (answers (response_of ex_one_each)) ex_person_only =
     \<lparr>final = ex_person_only\<lparr>error := Some ''Please upload both a person and a clothing image.''\<rparr>,
      invoked = [], network = []\<rparr> \<and>
   isLoading (final (handleVirtualTryOn ex_client_env (answers (response_of ex_one_each))
                       ex_person_only)) = False"
proof -
  have c: "clothingImage ex_person_only = None" and l: "isLoading ex_person_only = False"
    by (simp_all add: ex_person_only_def)
  show ?thesis
    using generate_needs_both_images [of ex_person_only ex_client_env
        "answers (response_of ex_one_each)"]
    by (simp add: c l)
qed

subsection \<open>Refine\<close>

text \<open>The state after a refine action that has passed its entry check.\<close>

lemma handleRefine_started:
  assumes "resultImage s = Some cur" and "cur \<noteq> []" and "trim (refinePrompt s) \<noteq> []"
  shows "final (handleRefine env provider s) =
     (case fst (refineImage env provider (index_opt (split_on CHR '','' cur) 1) ''image/png''
                  (refinePrompt s)) of
        Inl err \<Rightarrow> refine_failed err (s\<lparr>isRefining := True, error := None\<rparr>)
      | Inr result \<Rightarrow>
          if \<not> falsy (imageBase64 result) then
            s\<lparr>isRefining := True, error := None,
              resultImage := Some (data_url (the (imageBase64 result))),
              refinePrompt := []\<rparr>
          else refine_failed (JsError no_refined_message)
                 (s\<lparr>isRefining := True, error := None\<rparr>))
       \<lparr>isRefining := False\<rparr>"
  using assms
  by (simp add: handleRefine_def falsy_def Let_def split: prod.splits sum.splits)

text \<open>
  Claim C9, amended: for a refine action started with a result image and a non-blank
  prompt, the refining flag is cleared at the end, whether the action succeeds or ends
  in an error; and when the client returns an image that is neither null nor the empty
  string, the result image is replaced by the data URL of the returned image and the
  prompt field is cleared.
\<close>

theorem refine_replaces_image_and_clears_flag:
  assumes "resultImage s = Some cur" and "cur \<noteq> []" and "trim (refinePrompt s) \<noteq> []"
  shows
    "isRefining (final (handleRefine env provider s)) = False \<and>
     (fst (refineImage env provider (index_opt (split_on CHR '','' cur) 1) ''image/png''
             (refinePrompt s)) = Inr \<lparr>imageBase64 = Some img, result_text = t\<rparr> \<and>
      img \<noteq> [] \<longrightarrow>
        resultImage (final (handleRefine env provider s)) =
          Some (''data:image/png;base64,'' @ img) \<and>
        refinePrompt (final (handleRefine env provider s)) = [])"
  unfolding handleRefine_started [OF assms]
  by (auto simp: falsy_def data_url_def refine_failed_def split: sum.splits)

lemma ex_with_result_fields:
  "resultImage ex_with_result = Some ''data:image/png;base64,AAAA''"
  "refinePrompt ex_with_result = ''make it red''"
  by (simp_all add: ex_with_result_def)

lemma ex_trim: "trim ''make it red'' = ''make it red''"
  by (simp add: trim_def js_space_def)

lemma ex_split: "index_opt (split_on CHR '','' ''data:image/png;base64,AAAA'') 1 = Some ''AAAA''"
  by (simp add: index_opt_def)

text \<open>The theorem at a state with a result and the prompt \<open>make it red\<close>.\<close>

theorem refine_replaces_image_and_clears_flag_witness:
  "resultImage ex_with_result = Some ''data:image/png;base64,AAAA'' \<and>
   trim (refinePrompt ex_with_result) \<noteq> [] \<and>
   fst (refineImage ex_client_env (answers (response_of ex_one_each)) (Some ''AAAA'')
          ''image/png'' ''make it red'') =
     Inr \<lparr>imageBase64 = Some ''A'', result_text = Some ''x''\<rparr> \<and>
   isRefining (final (handleRefine ex_client_env (answers (response_of ex_one_each))
                        ex_with_result)) = False \<and>
   resultImage (final (handleRefine ex_client_env (answers (response_of ex_one_each))
                         ex_with_result)) = Some ''data:image/png;base64,A'' \<and>
   refinePrompt (final (handleRefine ex_client_env (answers (response_of ex_one_each))
                          ex_with_result)) = []"
proof -
  have li: "last_inline_payload ex_one_each = Some ''A''"
    by (simp add: last_inline_payload_def inline_parts_def payload_of_def ex_one_each_def
        image_part_def text_part_def)
  have lt: "last_text_fragment ex_one_each = Some ''x''"
    by (simp add: last_text_fragment_def text_parts_def falsy_def ex_one_each_def
        image_part_def text_part_def)
  have r: "fst (refineImage ex_client_env (answers (response_of ex_one_each)) (Some ''AAAA'')
          ''image/png'' ''make it red'') = Inr \<lparr>imageBase64 = Some ''A'', result_text = Some ''x''\<rparr>"
    by (simp add: ex_refine_answers extract_response_of li lt)
  have tr: "trim (refinePrompt ex_with_result) \<noteq> []"
    by (simp add: ex_with_result_fields ex_trim)
  note th = refine_replaces_image_and_clears_flag [where env = ex_client_env
      and provider = "answers (response_of ex_one_each)" and img = "''A''" and t = "Some ''x''",
      OF ex_with_result_fields(1) _ tr, unfolded ex_split ex_with_result_fields(2)]
  show ?thesis
    using th r by (simp add: ex_with_result_fields ex_trim)
qed

text \<open>
  As first stated, C9 fails where the client returns the empty string as image: it is
  not null, and the action ends in the error branch with the result image and the
  prompt unchanged.
\<close>

theorem refine_empty_image_counterexample:
  "fst (refineImage ex_client_env (answers (response_of ex_empty_image)) (Some ''AAAA'')
          ''image/png'' ''make it red'') = Inr \<lparr>imageBase64 = Some [], result_text = None\<rparr> \<and>
   resultImage (final (handleRefine ex_client_env (answers (response_of ex_empty_image))
                         ex_with_result)) = Some ''data:image/png;base64,AAAA'' \<and>
   refinePrompt (final (handleRefine ex_client_env (answers (response_of ex_empty_image))
                          ex_with_result)) = ''make it red'' \<and>
   error (final (handleRefine ex_client_env (answers (response_of ex_empty_image))
                   ex_with_result)) =
     Some ''Failed to refine image: The AI model did not return a refined image.''"
proof -
  have li: "last_inline_payload ex_empty_image = Some []"
    by (simp add: last_inline_payload_def inline_parts_def payload_of_def ex_empty_image_def
        image_part_def)
  have lt: "last_text_fragment ex_empty_image = None"
    by (simp add: last_text_fragment_def text_parts_def ex_empty_image_def image_part_def)
  have r: "fst (refineImage ex_client_env (answers (response_of ex_empty_image)) (Some ''AAAA'')
          ''image/png'' ''make it red'') = Inr \<lparr>imageBase64 = Some [], result_text = None\<rparr>"
    by (simp add: ex_refine_answers extract_response_of li lt)
  have tr: "trim (refinePrompt ex_with_result) \<noteq> []"
    by (simp add: ex_with_result_fields ex_trim)
  have "final (handleRefine ex_client_env (answers (response_of ex_empty_image)) ex_with_result) =
      (refine_failed (JsError no_refined_message)
         (ex_with_result\<lparr>isRefining := True, error := None\<rparr>))\<lparr>isRefining := False\<rparr>"
    using handleRefine_started [where env = ex_client_env
        and provider = "answers (response_of ex_empty_image)",
        OF ex_with_result_fields(1) _ tr, unfolded ex_split ex_with_result_fields(2)]
    by (simp add: r falsy_def)
  then show ?thesis
    by (simp add: r refine_failed_def error_message_def no_refined_message_def
        ex_with_result_fields)
qed

end
